theory Spec2Isabelle
  imports Main
begin

section \<open>Python values\<close>

text \<open>
  A Python \<^verbatim>\<open>str\<close> is a sequence of Unicode code points and \<^verbatim>\<open>len\<close> counts code
  points, so a string is a list of code points (natural numbers), not a list of bytes.
  \<open>py\<close> turns an ASCII literal of the source into such a list.
\<close>

type_synonym pychar = nat
type_synonym pystr = "pychar list"

definition py :: "string \<Rightarrow> pystr" where
  "py s = map of_char s"

text \<open>The text of an exception, \<^verbatim>\<open>str(e)\<close>.\<close>

type_synonym fault = pystr

text \<open>
  Python's \<^verbatim>\<open>xs[:n]\<close> for an integer \<open>n\<close>: a negative \<open>n\<close> counts from the end.
\<close>

definition slice_to :: "int \<Rightarrow> 'a list \<Rightarrow> 'a list" where
  "slice_to n xs =
     (if 0 \<le> n then take (nat n) xs else take (length xs - nat (- n)) xs)"

text \<open>
  The documents handed to \<^verbatim>\<open>json.dumps\<close>. A dict is an association list in insertion
  order. Floats (timestamps, ratios) are only copied by the code, never computed with, so
  their type is a parameter \<open>'f\<close>.
\<close>

datatype 'f json =
    JNull
  | JBool bool
  | JInt int
  | JFloat 'f
  | JStr pystr
  | JArr "'f json list"
  | JObj "(pystr \<times> 'f json) list"

fun jopt :: "pystr option \<Rightarrow> 'f json" where
  "jopt None = JNull"
| "jopt (Some s) = JStr s"

text \<open>Reading a key of a dict document; \<open>None\<close> when the key is absent.\<close>

fun field :: "'f json \<Rightarrow> pystr \<Rightarrow> 'f json option" where
  "field (JObj kvs) k = map_of kvs k"
| "field _ k = None"

fun has_key :: "'f json \<Rightarrow> pystr \<Rightarrow> bool" where
  "has_key (JObj kvs) k = (k \<in> set (map fst kvs))"
| "has_key _ k = False"

fun endswith :: "'a list \<Rightarrow> 'a list \<Rightarrow> bool" where
  "endswith s suffix = (length suffix \<le> length s \<and> drop (length s - length suffix) s = suffix)"

section \<open>Reddit adapter (RedditMCP.py)\<close>

subsection \<open>What the PRAW client delivers\<close>

text \<open>
  The attributes of a PRAW submission, comment and subreddit that the code reads.
  \<open>author\<close> is \<open>None\<close> for a deleted account, otherwise the name \<^verbatim>\<open>str(author)\<close> gives.
\<close>

record 'f submission =
  sub_id :: pystr
  sub_title :: pystr
  sub_author :: "pystr option"
  sub_subreddit :: pystr
  sub_score :: int
  sub_upvote_ratio :: 'f
  sub_num_comments :: int
  sub_created_utc :: 'f
  sub_url :: pystr
  sub_permalink :: pystr
  sub_selftext :: pystr
  sub_is_self :: bool
  sub_over_18 :: bool
  sub_spoiler :: bool
  sub_stickied :: bool
  sub_link_flair_text :: "pystr option"
  sub_gilded :: int
  sub_distinguished :: "pystr option"

record 'f comment =
  com_id :: pystr
  com_author :: "pystr option"
  com_body :: pystr
  com_score :: int
  com_created_utc :: 'f
  com_is_submitter :: bool
  com_stickied :: bool
  com_gilded :: int

text \<open>
  A top-level entry of a comment forest is a comment or a \<^verbatim>\<open>MoreComments\<close> placeholder
  (which has no \<^verbatim>\<open>body\<close> attribute).
\<close>

datatype 'f forest_item = Comment "'f comment" | MoreComments

record 'f subreddit =
  sr_display_name :: pystr
  sr_title :: pystr
  sr_description :: pystr
  sr_subscribers :: int
  sr_active_user_count :: int
  sr_created_utc :: 'f
  sr_over18 :: bool
  sr_public_description :: pystr
  sr_subreddit_type :: pystr
  sr_lang :: pystr

text \<open>
  The calls the four operations make on the client, in the order of the source, and the
  world that answers them: every call either raises (\<open>Inl\<close> with the text of the
  exception) or delivers its value. A listing is delivered when the code iterates over
  it; a fault during the iteration is a fault of the listing call.
\<close>

datatype call =
    NewClient
  | SubredditHandle pystr
  | ListHot pystr int
  | ListNew pystr int
  | ListTop pystr pystr int
  | ListRising pystr int
  | FetchSubmission pystr
  | ReplaceMore pystr int
  | Search pystr pystr pystr int
  | FetchSubreddit pystr

record 'f reddit_world =
  praw_reddit :: "fault + unit"
  praw_subreddit :: "pystr \<Rightarrow> fault + unit"
  praw_hot :: "pystr \<Rightarrow> int \<Rightarrow> fault + 'f submission list"
  praw_new :: "pystr \<Rightarrow> int \<Rightarrow> fault + 'f submission list"
  praw_top :: "pystr \<Rightarrow> pystr \<Rightarrow> int \<Rightarrow> fault + 'f submission list"
  praw_rising :: "pystr \<Rightarrow> int \<Rightarrow> fault + 'f submission list"
  praw_submission :: "pystr \<Rightarrow> fault + 'f submission"
  praw_comments :: "pystr \<Rightarrow> 'f forest_item list"
  praw_replace_more :: "pystr \<Rightarrow> fault + unit"
  praw_search :: "pystr \<Rightarrow> pystr \<Rightarrow> pystr \<Rightarrow> int \<Rightarrow> fault + 'f submission list"
  praw_about :: "pystr \<Rightarrow> fault + 'f subreddit"

subsection \<open>Running an operation: result and call log\<close>

text \<open>
  A run of a piece of code either raises or returns (\<open>Inl\<close>/\<open>Inr\<close>), and leaves the
  list of client calls it issued.
\<close>

type_synonym 'a run = "(fault + 'a) \<times> call list"

definition returns :: "'a \<Rightarrow> 'a run" where
  "returns x = (Inr x, [])"

definition issue :: "call \<Rightarrow> fault + 'a \<Rightarrow> 'a run" where
  "issue c answer = (answer, [c])"

definition and_then :: "'a run \<Rightarrow> ('a \<Rightarrow> 'b run) \<Rightarrow> 'b run" where
  "and_then m f =
     (case m of
        (Inl e, log) \<Rightarrow> (Inl e, log)
      | (Inr x, log) \<Rightarrow> (case f x of (r, log') \<Rightarrow> (r, log @ log')))"

text \<open>\<^verbatim>\<open>try: body  except Exception as e: handler(e)\<close>\<close>

definition try_except :: "'a run \<Rightarrow> (fault \<Rightarrow> 'a run) \<Rightarrow> 'a run" where
  "try_except body handler =
     (case body of
        (Inl e, log) \<Rightarrow> (case handler e of (r, log') \<Rightarrow> (r, log @ log'))
      | (Inr x, log) \<Rightarrow> (Inr x, log))"

definition error_doc :: "pystr \<Rightarrow> fault \<Rightarrow> 'f json" where
  "error_doc prefix e = JObj [(py ''error'', JStr (prefix @ e))]"

subsection \<open>The operations\<close>

definition get_reddit_client :: "'f reddit_world \<Rightarrow> unit run" where
  "get_reddit_client w = issue NewClient (praw_reddit w)"

text \<open>
  \<^verbatim>\<open>text[:limit] + "..." if len(text) > limit else text\<close>, the expression the source
  writes out at each truncated field.
\<close>

definition truncate_text :: "nat \<Rightarrow> pystr \<Rightarrow> pystr" where
  "truncate_text limit text =
     (if length text > limit then take limit text @ py ''...'' else text)"

definition author_str :: "pystr option \<Rightarrow> pystr" where
  "author_str a = (case a of Some name \<Rightarrow> name | None \<Rightarrow> py ''[deleted]'')"

definition post_info :: "'f submission \<Rightarrow> 'f json" where
  "post_info post = JObj
     [(py ''id'', JStr (sub_id post)),
      (py ''title'', JStr (sub_title post)),
      (py ''author'', JStr (author_str (sub_author post))),
      (py ''score'', JInt (sub_score post)),
      (py ''upvote_ratio'', JFloat (sub_upvote_ratio post)),
      (py ''num_comments'', JInt (sub_num_comments post)),
      (py ''created_utc'', JFloat (sub_created_utc post)),
      (py ''url'', JStr (sub_url post)),
      (py ''permalink'', JStr (py ''https://reddit.com'' @ sub_permalink post)),
      (py ''selftext'', JStr (truncate_text 500 (sub_selftext post))),
      (py ''is_self'', JBool (sub_is_self post)),
      (py ''over_18'', JBool (sub_over_18 post)),
      (py ''spoiler'', JBool (sub_spoiler post)),
      (py ''stickied'', JBool (sub_stickied post)),
      (py ''flair_text'', jopt (sub_link_flair_text post))]"

definition posts_doc ::
  "pystr \<Rightarrow> pystr \<Rightarrow> pystr \<Rightarrow> 'f submission list \<Rightarrow> 'f json" where
  "posts_doc subreddit_name sort_type time_filter posts =
     (let post_data = map post_info posts in
      JObj
       [(py ''subreddit'', JStr subreddit_name),
        (py ''sort_type'', JStr sort_type),
        (py ''time_filter'', if sort_type = py ''top'' then JStr time_filter else JNull),
        (py ''count'', JInt (int (length post_data))),
        (py ''posts'', JArr post_data)])"

definition invalid_sort_doc :: "'f json" where
  "invalid_sort_doc =
     JObj [(py ''error'',
            JStr (py ''Invalid sort_type. Use 'hot', 'new', 'top', or 'rising'' @ [39]))]"

definition get_subreddit_posts_body ::
  "'f reddit_world \<Rightarrow> pystr \<Rightarrow> pystr \<Rightarrow> int \<Rightarrow> pystr \<Rightarrow> 'f json run" where
  "get_subreddit_posts_body w subreddit_name sort_type limit time_filter =
     and_then (get_reddit_client w) (\<lambda>reddit.
     and_then (issue (SubredditHandle subreddit_name) (praw_subreddit w subreddit_name))
       (\<lambda>subreddit.
         if sort_type = py ''hot'' then
           and_then (issue (ListHot subreddit_name limit) (praw_hot w subreddit_name limit))
             (\<lambda>posts. returns (posts_doc subreddit_name sort_type time_filter posts))
         else if sort_type = py ''new'' then
           and_then (issue (ListNew subreddit_name limit) (praw_new w subreddit_name limit))
             (\<lambda>posts. returns (posts_doc subreddit_name sort_type time_filter posts))
         else if sort_type = py ''top'' then
           and_then (issue (ListTop subreddit_name time_filter limit)
                       (praw_top w subreddit_name time_filter limit))
             (\<lambda>posts. returns (posts_doc subreddit_name sort_type time_filter posts))
         else if sort_type = py ''rising'' then
           and_then (issue (ListRising subreddit_name limit)
                       (praw_rising w subreddit_name limit))
             (\<lambda>posts. returns (posts_doc subreddit_name sort_type time_filter posts))
         else returns invalid_sort_doc))"

definition get_subreddit_posts ::
  "'f reddit_world \<Rightarrow> pystr \<Rightarrow> pystr \<Rightarrow> int \<Rightarrow> pystr \<Rightarrow> 'f json run" where
  "get_subreddit_posts w subreddit_name sort_type limit time_filter =
     try_except (get_subreddit_posts_body w subreddit_name sort_type limit time_filter)
       (\<lambda>e. returns (error_doc (py ''Failed to fetch posts: '') e))"

definition post_details :: "'f submission \<Rightarrow> (pystr \<times> 'f json) list" where
  "post_details submission =
     [(py ''id'', JStr (sub_id submission)),
      (py ''title'', JStr (sub_title submission)),
      (py ''author'', JStr (author_str (sub_author submission))),
      (py ''subreddit'', JStr (sub_subreddit submission)),
      (py ''score'', JInt (sub_score submission)),
      (py ''upvote_ratio'', JFloat (sub_upvote_ratio submission)),
      (py ''num_comments'', JInt (sub_num_comments submission)),
      (py ''created_utc'', JFloat (sub_created_utc submission)),
      (py ''url'', JStr (sub_url submission)),
      (py ''permalink'', JStr (py ''https://reddit.com'' @ sub_permalink submission)),
      (py ''selftext'', JStr (sub_selftext submission)),
      (py ''is_self'', JBool (sub_is_self submission)),
      (py ''over_18'', JBool (sub_over_18 submission)),
      (py ''spoiler'', JBool (sub_spoiler submission)),
      (py ''stickied'', JBool (sub_stickied submission)),
      (py ''flair_text'', jopt (sub_link_flair_text submission)),
      (py ''gilded'', JInt (sub_gilded submission)),
      (py ''distinguished'', jopt (sub_distinguished submission))]"

definition comment_info :: "'f comment \<Rightarrow> 'f json" where
  "comment_info comment = JObj
     [(py ''id'', JStr (com_id comment)),
      (py ''author'', JStr (author_str (com_author comment))),
      (py ''body'', JStr (truncate_text 300 (com_body comment))),
      (py ''score'', JInt (com_score comment)),
      (py ''created_utc'', JFloat (com_created_utc comment)),
      (py ''is_submitter'', JBool (com_is_submitter comment)),
      (py ''stickied'', JBool (com_stickied comment)),
      (py ''gilded'', JInt (com_gilded comment))]"

text \<open>
  \<^verbatim>\<open>replace_more(limit=0)\<close> removes every \<^verbatim>\<open>MoreComments\<close> placeholder from the
  forest (PRAW's documented behaviour for limit 0).
\<close>

definition replace_more_0 :: "'f forest_item list \<Rightarrow> 'f forest_item list" where
  "replace_more_0 forest = filter (\<lambda>item. item \<noteq> MoreComments) forest"

text \<open>The loop over \<^verbatim>\<open>submission.comments[:comment_limit]\<close> with its \<^verbatim>\<open>hasattr\<close> test.\<close>

fun collect_comments :: "'f forest_item list \<Rightarrow> 'f json list" where
  "collect_comments [] = []"
| "collect_comments (Comment c # rest) = comment_info c # collect_comments rest"
| "collect_comments (MoreComments # rest) = collect_comments rest"

definition get_post_details_body ::
  "'f reddit_world \<Rightarrow> pystr \<Rightarrow> bool \<Rightarrow> int \<Rightarrow> 'f json run" where
  "get_post_details_body w post_id include_comments comment_limit =
     and_then (get_reddit_client w) (\<lambda>reddit.
     and_then (issue (FetchSubmission post_id) (praw_submission w post_id)) (\<lambda>submission.
       if include_comments then
         and_then (issue (ReplaceMore post_id 0) (praw_replace_more w post_id)) (\<lambda>u.
           let comments =
                 collect_comments
                   (slice_to comment_limit (replace_more_0 (praw_comments w post_id)))
           in returns (JObj (post_details submission @ [(py ''comments'', JArr comments)])))
       else returns (JObj (post_details submission))))"

definition get_post_details ::
  "'f reddit_world \<Rightarrow> pystr \<Rightarrow> bool \<Rightarrow> int \<Rightarrow> 'f json run" where
  "get_post_details w post_id include_comments comment_limit =
     try_except (get_post_details_body w post_id include_comments comment_limit)
       (\<lambda>e. returns (error_doc (py ''Failed to fetch post details: '') e))"

definition result_info :: "'f submission \<Rightarrow> 'f json" where
  "result_info post = JObj
     [(py ''id'', JStr (sub_id post)),
      (py ''title'', JStr (sub_title post)),
      (py ''author'', JStr (author_str (sub_author post))),
      (py ''subreddit'', JStr (sub_subreddit post)),
      (py ''score'', JInt (sub_score post)),
      (py ''num_comments'', JInt (sub_num_comments post)),
      (py ''created_utc'', JFloat (sub_created_utc post)),
      (py ''url'', JStr (sub_url post)),
      (py ''permalink'', JStr (py ''https://reddit.com'' @ sub_permalink post)),
      (py ''selftext'', JStr (truncate_text 200 (sub_selftext post)))]"

definition search_doc ::
  "pystr \<Rightarrow> pystr \<Rightarrow> pystr \<Rightarrow> 'f submission list \<Rightarrow> 'f json" where
  "search_doc query sort_by time_filter search_results =
     (let results = map result_info search_results in
      JObj
       [(py ''query'', JStr query),
        (py ''sort'', JStr sort_by),
        (py ''time_filter'', JStr time_filter),
        (py ''count'', JInt (int (length results))),
        (py ''results'', JArr results)])"

definition search_reddit_body ::
  "'f reddit_world \<Rightarrow> pystr \<Rightarrow> pystr \<Rightarrow> pystr \<Rightarrow> int \<Rightarrow> 'f json run" where
  "search_reddit_body w query sort_by time_filter limit =
     and_then (get_reddit_client w) (\<lambda>reddit.
     and_then (issue (SubredditHandle (py ''all'')) (praw_subreddit w (py ''all'')))
       (\<lambda>subreddit.
     and_then (issue (Search query sort_by time_filter limit)
                 (praw_search w query sort_by time_filter limit))
       (\<lambda>search_results. returns (search_doc query sort_by time_filter search_results))))"

definition search_reddit ::
  "'f reddit_world \<Rightarrow> pystr \<Rightarrow> pystr \<Rightarrow> pystr \<Rightarrow> int \<Rightarrow> 'f json run" where
  "search_reddit w query sort_by time_filter limit =
     try_except (search_reddit_body w query sort_by time_filter limit)
       (\<lambda>e. returns (error_doc (py ''Search failed: '') e))"




subsection \<open>Sample worlds\<close>

text \<open>Concrete client answers on which the theorems below are instantiated.\<close>

definition demo_submission :: "pystr \<Rightarrow> unit submission" where
  "demo_submission text =
     \<lparr>sub_id = py ''1abc9'', sub_title = py ''A title'', sub_author = None,
      sub_subreddit = py ''python'', sub_score = 7, sub_upvote_ratio = (),
      sub_num_comments = 2, sub_created_utc = (), sub_url = py ''https://example.org'',
      sub_permalink = py ''/r/python/comments/1abc9/'', sub_selftext = text,
      sub_is_self = True, sub_over_18 = False, sub_spoiler = False, sub_stickied = False,
      sub_link_flair_text = None, sub_gilded = 0, sub_distinguished = None\<rparr>"

definition demo_comment :: "pystr \<Rightarrow> unit comment" where
  "demo_comment text =
     \<lparr>com_id = py ''c1'', com_author = Some (py ''alice''), com_body = text, com_score = 3,
      com_created_utc = (), com_is_submitter = False, com_stickied = False, com_gilded = 0\<rparr>"

definition demo_subreddit :: "unit subreddit" where
  "demo_subreddit =
     \<lparr>sr_display_name = py ''python'', sr_title = py ''Python'', sr_description = py ''News'',
      sr_subscribers = 10, sr_active_user_count = 1, sr_created_utc = (), sr_over18 = False,
      sr_public_description = py ''News'', sr_subreddit_type = py ''public'',
      sr_lang = py ''en''\<rparr>"

definition demo_world :: "pystr \<Rightarrow> unit reddit_world" where
  "demo_world text =
     \<lparr>praw_reddit = Inr (),
      praw_subreddit = (\<lambda>name. Inr ()),
      praw_hot = (\<lambda>name limit. Inr [demo_submission text, demo_submission (py ''second'')]),
      praw_new = (\<lambda>name limit. Inr [demo_submission text]),
      praw_top = (\<lambda>name time_filter limit. Inr [demo_submission text]),
      praw_rising = (\<lambda>name limit. Inr []),
      praw_submission = (\<lambda>post_id. Inr (demo_submission text)),
      praw_comments = (\<lambda>post_id.
         [Comment (demo_comment (py ''first'')), MoreComments, Comment (demo_comment text)]),
      praw_replace_more = (\<lambda>post_id. Inr ()),
      praw_search = (\<lambda>query sort_by time_filter limit. Inr [demo_submission text]),
      praw_about = (\<lambda>name. Inr demo_subreddit)\<rparr>"



definition valid_sort_types :: "pystr list" where
  "valid_sort_types = [py ''hot'', py ''new'', py ''top'', py ''rising'']"


section \<open>BigQuery adapter (bqMCPServer.py)\<close>

subsection \<open>Python's string operations\<close>

text \<open>
  The tables of the Unicode database that the code reaches through \<^verbatim>\<open>re\<close> and
  \<^verbatim>\<open>str.upper\<close> are not part of the repository; they are a parameter. \<open>alnum c\<close> says
  whether a code point from 128 on is alphanumeric (\<^verbatim>\<open>str.isalnum\<close>), \<open>upper c\<close> is the
  upper-case mapping of a code point from 128 on (it may be several code points). What
  Python does on ASCII is written out.
\<close>

record unicode =
  alnum :: "pychar \<Rightarrow> bool"
  upper :: "pychar \<Rightarrow> pystr"

definition ascii_letter :: "pychar \<Rightarrow> bool" where
  "ascii_letter c = ((65 \<le> c \<and> c \<le> 90) \<or> (97 \<le> c \<and> c \<le> 122))"

definition ascii_digit :: "pychar \<Rightarrow> bool" where
  "ascii_digit c = (48 \<le> c \<and> c \<le> 57)"

text \<open>
  Under \<^verbatim>\<open>re.IGNORECASE\<close> four code points beyond ASCII match ASCII letters: U+0130 and
  U+0131 match \<^verbatim>\<open>i\<close>, U+017F matches \<^verbatim>\<open>s\<close>, U+212A matches \<^verbatim>\<open>k\<close>; the classes
  \<^verbatim>\<open>[a-z]\<close> and \<^verbatim>\<open>[A-Z]\<close> contain all four.
\<close>

definition folds_to_ascii_letter :: "pychar \<Rightarrow> bool" where
  "folds_to_ascii_letter c = (c = 304 \<or> c = 305 \<or> c = 383 \<or> c = 8490)"

text \<open>\<^verbatim>\<open>\s\<close> and the characters \<^verbatim>\<open>str.strip()\<close> removes: Unicode whitespace.\<close>

definition is_space :: "pychar \<Rightarrow> bool" where
  "is_space c =
     ((9 \<le> c \<and> c \<le> 13) \<or> (28 \<le> c \<and> c \<le> 32) \<or> c = 133 \<or> c = 160 \<or> c = 5760
      \<or> (8192 \<le> c \<and> c \<le> 8202) \<or> c = 8232 \<or> c = 8233 \<or> c = 8239 \<or> c = 8287
      \<or> c = 12288)"

text \<open>\<^verbatim>\<open>\w\<close>: alphanumeric or underscore.\<close>

definition is_word :: "unicode \<Rightarrow> pychar \<Rightarrow> bool" where
  "is_word U c =
     (if c < 128 then ascii_letter c \<or> ascii_digit c \<or> c = 95
      else folds_to_ascii_letter c \<or> alnum U c)"

text \<open>A literal letter \<open>p\<close> of a pattern against the character \<open>c\<close>, ignoring case.\<close>

definition ic_eq :: "pychar \<Rightarrow> pychar \<Rightarrow> bool" where
  "ic_eq p c =
     (c = p
      \<or> (65 \<le> p \<and> p \<le> 90 \<and> c = p + 32)
      \<or> (97 \<le> p \<and> p \<le> 122 \<and> c + 32 = p)
      \<or> ((p = 73 \<or> p = 105) \<and> (c = 304 \<or> c = 305))
      \<or> ((p = 83 \<or> p = 115) \<and> c = 383)
      \<or> ((p = 75 \<or> p = 107) \<and> c = 8490))"

text \<open>\<^verbatim>\<open>[a-zA-Z_]\<close> and \<^verbatim>\<open>[a-zA-Z0-9_]\<close>, ignoring case.\<close>

definition ident_start :: "pychar \<Rightarrow> bool" where
  "ident_start c = (ascii_letter c \<or> c = 95 \<or> folds_to_ascii_letter c)"

definition ident_char :: "pychar \<Rightarrow> bool" where
  "ident_char c = (ascii_letter c \<or> ascii_digit c \<or> c = 95 \<or> folds_to_ascii_letter c)"

text \<open>\<^verbatim>\<open>str.upper()\<close>, character by character.\<close>

definition ascii_upper :: "pychar \<Rightarrow> pychar" where
  "ascii_upper c = (if 97 \<le> c \<and> c \<le> 122 then c - 32 else c)"

definition py_upper :: "unicode \<Rightarrow> pystr \<Rightarrow> pystr" where
  "py_upper U s = concat (map (\<lambda>c. if c < 128 then [ascii_upper c] else upper U c) s)"

definition strip :: "pystr \<Rightarrow> pystr" where
  "strip s = rev (dropWhile is_space (rev (dropWhile is_space s)))"

definition startswith :: "'a list \<Rightarrow> 'a list \<Rightarrow> bool" where
  "startswith s prefix = (take (length prefix) s = prefix)"

text \<open>\<^verbatim>\<open>needle in haystack\<close> for strings.\<close>

fun contains :: "'a list \<Rightarrow> 'a list \<Rightarrow> bool" where
  "contains needle [] = (needle = [])"
| "contains needle (c # cs) = (startswith (c # cs) needle \<or> contains needle cs)"

text \<open>\<^verbatim>\<open>str(n)\<close> for an integer.\<close>

fun digits :: "nat \<Rightarrow> pystr" where
  "digits n = (if n < 10 then [48 + n] else digits (n div 10) @ [48 + n mod 10])"

declare digits.simps [simp del]

definition str_int :: "int \<Rightarrow> pystr" where
  "str_int i = (if i < 0 then 45 # digits (nat (- i)) else digits (nat i))"

subsection \<open>The patterns of the rewrite and \<^verbatim>\<open>re.sub\<close>\<close>

definition PROJECT_ID :: pystr where
  "PROJECT_ID = py ''[Insert your project ID here]''"

definition DATASET_ID :: pystr where
  "DATASET_ID = py ''[Insert your dataset ID here]''"

text \<open>
  The four patterns have one shape,
  \<^verbatim>\<open>\bKEYWORD\s+([a-zA-Z_][a-zA-Z0-9_]*)\b\<close>, the last one with the negative lookahead
  \<^verbatim>\<open>(?!IF\s+EXISTS)\<close> in front of the group. A pattern is its keyword and whether it has
  the lookahead.
\<close>

record pattern =
  keyword :: pystr
  lookahead :: bool

definition patterns :: "pattern list" where
  "patterns =
     [\<lparr>keyword = py ''FROM'', lookahead = False\<rparr>,
      \<lparr>keyword = py ''INTO'', lookahead = False\<rparr>,
      \<lparr>keyword = py ''UPDATE'', lookahead = False\<rparr>,
      \<lparr>keyword = py ''TABLE'', lookahead = True\<rparr>]"

text \<open>
  \<^verbatim>\<open>\b\<close> between the character before a position and the character at it (\<open>None\<close> at
  either end of the string): exactly one of the two is a word character.
\<close>

definition word_char :: "unicode \<Rightarrow> pychar option \<Rightarrow> bool" where
  "word_char U x = (case x of None \<Rightarrow> False | Some c \<Rightarrow> is_word U c)"

definition boundary :: "unicode \<Rightarrow> pychar option \<Rightarrow> pychar option \<Rightarrow> bool" where
  "boundary U before after = (word_char U before \<noteq> word_char U after)"

definition head :: "'a list \<Rightarrow> 'a option" where
  "head s = (case s of [] \<Rightarrow> None | c # cs \<Rightarrow> Some c)"

text \<open>A literal, ignoring case: the rest of the text after it, if it matches.\<close>

fun match_literal :: "pystr \<Rightarrow> pystr \<Rightarrow> pystr option" where
  "match_literal [] s = Some s"
| "match_literal (p # ps) [] = None"
| "match_literal (p # ps) (c # cs) = (if ic_eq p c then match_literal ps cs else None)"

text \<open>
  Backtracking over a greedy repetition: the counts are tried from the largest down, the
  first one for which the rest of the pattern matches wins.
\<close>

fun first_success :: "(nat \<Rightarrow> 'a option) \<Rightarrow> nat list \<Rightarrow> 'a option" where
  "first_success rest [] = None"
| "first_success rest (n # ns) =
     (case rest n of Some r \<Rightarrow> Some r | None \<Rightarrow> first_success rest ns)"

definition greedy :: "nat \<Rightarrow> nat \<Rightarrow> nat list" where
  "greedy least most = rev [least..<Suc most]"

text \<open>\<^verbatim>\<open>IF\s+EXISTS\<close> at the start of \<open>s\<close>, the body of the lookahead.\<close>

definition if_exists :: "pystr \<Rightarrow> bool" where
  "if_exists s =
     (case match_literal (py ''IF'') s of
        None \<Rightarrow> False
      | Some r \<Rightarrow>
          first_success (\<lambda>n. match_literal (py ''EXISTS'') (drop n r))
            (greedy 1 (length (takeWhile is_space r))) \<noteq> None)"

text \<open>
  The group \<^verbatim>\<open>([a-zA-Z_][a-zA-Z0-9_]*)\<close> followed by \<^verbatim>\<open>\b\<close>, at the start of \<open>s\<close>: the
  text of the group.
\<close>

definition match_identifier :: "unicode \<Rightarrow> pystr \<Rightarrow> pystr option" where
  "match_identifier U s =
     (case s of
        [] \<Rightarrow> None
      | c # cs \<Rightarrow>
          if \<not> ident_start c then None
          else first_success
                 (\<lambda>m. if boundary U (Some ((c # cs) ! m)) (head (drop m cs))
                       then Some (take (Suc m) (c # cs)) else None)
                 (greedy 0 (length (takeWhile ident_char cs))))"

text \<open>
  The whole pattern at the start of \<open>s\<close>, \<open>before\<close> being the character in front of it:
  the text of the group and the length of the match.
\<close>

definition match_at ::
  "unicode \<Rightarrow> pattern \<Rightarrow> pychar option \<Rightarrow> pystr \<Rightarrow> (pystr \<times> nat) option" where
  "match_at U pat before s =
     (if \<not> boundary U before (head s) then None
      else case match_literal (keyword pat) s of
             None \<Rightarrow> None
           | Some r \<Rightarrow>
               first_success
                 (\<lambda>n. if lookahead pat \<and> if_exists (drop n r) then None
                       else case match_identifier U (drop n r) of
                              None \<Rightarrow> None
                            | Some ident \<Rightarrow>
                                Some (ident, length (keyword pat) + n + length ident))
                 (greedy 1 (length (takeWhile is_space r))))"

text \<open>The replacement template with the group filled in.\<close>

definition replacement :: "pattern \<Rightarrow> pystr \<Rightarrow> pystr" where
  "replacement pat ident =
     keyword pat @ py '' `'' @ PROJECT_ID @ py ''.'' @ DATASET_ID @ py ''.'' @ ident @ py ''`''"

text \<open>
  \<^verbatim>\<open>re.sub(pattern, replacement, query, flags=re.IGNORECASE)\<close>: the text is scanned from
  the left; a match is replaced and the scan goes on behind it, otherwise the character is
  copied and the scan moves one character on. (A match of these patterns is never empty.)
\<close>

fun re_sub :: "unicode \<Rightarrow> pattern \<Rightarrow> pychar option \<Rightarrow> pystr \<Rightarrow> pystr" where
  "re_sub U pat before [] = []"
| "re_sub U pat before (c # cs) =
     (case match_at U pat before (c # cs) of
        None \<Rightarrow> c # re_sub U pat (Some c) cs
      | Some (ident, n) \<Rightarrow>
          replacement pat ident @ re_sub U pat (Some (last ident)) (drop (n - 1) cs))"

definition rewrite_query :: "unicode \<Rightarrow> pystr \<Rightarrow> pystr" where
  "rewrite_query U query =
     (if \<not> contains (PROJECT_ID @ py ''.'' @ DATASET_ID) query
      then foldl (\<lambda>q pat. re_sub U pat None q) query patterns
      else query)"


subsection \<open>Statements with one table reference\<close>






subsection \<open>Acquiring the client\<close>

text \<open>
  A client object is known by its identity. The module keeps the global
  \<^verbatim>\<open>_bq_client\<close>; next to it the state records, for the proofs only, every invocation
  of an authentication strategy and every statement submitted for execution.
\<close>

type_synonym client = nat

datatype strategy = ServiceAccountFile | EnvironmentVariable | ApplicationDefault

record bq_state =
  bq_client :: "client option"
  auth_log :: "strategy list"
  submitted :: "pystr list"

text \<open>
  What the surroundings answer: whether the service account path exists, what loading the
  credentials from it gives, whether \<^verbatim>\<open>GOOGLE_APPLICATION_CREDENTIALS\<close> is set to a
  non-empty value, what constructing \<^verbatim>\<open>bigquery.Client\<close> gives under a strategy (it
  may differ from one attempt to the next, so it depends on the number of earlier
  attempts), what running a statement gives, and what \<^verbatim>\<open>json.dumps\<close> prints for the
  rows.
\<close>

record 'r query_outcome =
  total_rows :: int
  schema :: "(pystr \<times> pystr) list"
  rows :: "'r list"
  num_dml_affected_rows :: "int option"

record 'r bq_world =
  path_exists :: bool
  from_service_account_file :: "fault + unit"
  env_credentials :: bool
  new_client :: "strategy \<Rightarrow> nat \<Rightarrow> fault + client"
  run_query :: "client \<Rightarrow> pystr \<Rightarrow> fault + 'r query_outcome"
  json_dumps :: "'r list \<Rightarrow> pystr"

definition no_authentication :: fault where
  "no_authentication =
     py ''No authentication found. Please either:'' @ [10]
     @ py ''1. Set the service account path in the code'' @ [10]
     @ py ''2. Set GOOGLE_APPLICATION_CREDENTIALS environment variable'' @ [10]
     @ py ''3. Run 'gcloud auth application-default login'' @ [39]"

text \<open>\<^verbatim>\<open>_bq_client = bigquery.Client(...)\<close> under a strategy, then \<^verbatim>\<open>return _bq_client\<close>.\<close>

definition construct ::
  "'r bq_world \<Rightarrow> strategy \<Rightarrow> bq_state \<Rightarrow> (fault + client) \<times> bq_state" where
  "construct w how st =
     (let st' = st\<lparr>auth_log := auth_log st @ [how]\<rparr> in
      case new_client w how (length (auth_log st)) of
        Inl e \<Rightarrow> (Inl e, st')
      | Inr c \<Rightarrow> (Inr c, st'\<lparr>bq_client := Some c\<rparr>))"

definition get_bigquery_client ::
  "'r bq_world \<Rightarrow> bq_state \<Rightarrow> (fault + client) \<times> bq_state" where
  "get_bigquery_client w st =
     (case bq_client st of
        Some c \<Rightarrow> (Inr c, st)
      | None \<Rightarrow>
          if path_exists w then
            (case from_service_account_file w of
               Inl e \<Rightarrow> (Inl e, st\<lparr>auth_log := auth_log st @ [ServiceAccountFile]\<rparr>)
             | Inr credentials \<Rightarrow> construct w ServiceAccountFile st)
          else if env_credentials w then construct w EnvironmentVariable st
          else
            (case construct w ApplicationDefault st of
               (Inl e, st') \<Rightarrow> (Inl no_authentication, st')
             | (Inr c, st') \<Rightarrow> (Inr c, st')))"

subsection \<open>Running a statement\<close>

definition is_read_statement :: "unicode \<Rightarrow> pystr \<Rightarrow> bool" where
  "is_read_statement U query =
     (let query_upper = strip (py_upper U query)
      in startswith query_upper (py ''SELECT'') \<or> startswith query_upper (py ''WITH''))"

definition schema_line :: "pystr \<times> pystr \<Rightarrow> pystr" where
  "schema_line f = py ''  - '' @ fst f @ py '': '' @ snd f @ [10]"

definition read_response :: "'r bq_world \<Rightarrow> 'r query_outcome \<Rightarrow> pystr" where
  "read_response w results =
     py ''Query executed successfully. Found '' @ str_int (total_rows results)
       @ py '' rows.'' @ [10, 10]
     @ py ''Schema:'' @ [10]
     @ concat (map schema_line (schema results))
     @ [10] @ py ''Results:'' @ [10]
     @ json_dumps w (rows results)"

text \<open>
  \<^verbatim>\<open>hasattr(query_job, 'num_dml_affected_rows') and query_job.num_dml_affected_rows\<close>
  is true when the attribute is there and is neither \<^verbatim>\<open>None\<close> nor 0.
\<close>

definition write_response :: "'r query_outcome \<Rightarrow> pystr" where
  "write_response results =
     py ''Query executed successfully.''
     @ (case num_dml_affected_rows results of
          None \<Rightarrow> []
        | Some n \<Rightarrow> if n \<noteq> 0 then py '' Affected '' @ str_int n @ py '' rows.'' else [])"

text \<open>The body of the \<^verbatim>\<open>try\<close> block: it raises or returns the response.\<close>

definition execute ::
  "unicode \<Rightarrow> 'r bq_world \<Rightarrow> client \<Rightarrow> pystr \<Rightarrow> fault + pystr" where
  "execute U w c query =
     (case run_query w c query of
        Inl e \<Rightarrow> Inl e
      | Inr results \<Rightarrow>
          if is_read_statement U query then Inr (read_response w results)
          else Inr (write_response results))"

definition query_bigquery ::
  "unicode \<Rightarrow> 'r bq_world \<Rightarrow> bq_state \<Rightarrow> pystr \<Rightarrow> (fault + pystr) \<times> bq_state" where
  "query_bigquery U w st query =
     (case get_bigquery_client w st of
        (Inl e, st') \<Rightarrow> (Inl e, st')
      | (Inr c, st') \<Rightarrow>
          (let query' = rewrite_query U query;
               st'' = st'\<lparr>submitted := submitted st' @ [query']\<rparr>
           in case execute U w c query' of
                Inl e \<Rightarrow> (Inr (py ''Query failed: '' @ e), st'')
              | Inr response \<Rightarrow> (Inr response, st'')))"

subsection \<open>Sample surroundings\<close>

definition ascii_only :: unicode where
  "ascii_only = \<lparr>alnum = (\<lambda>c. False), upper = (\<lambda>c. [c])\<rparr>"

definition fresh :: bq_state where
  "fresh = \<lparr>bq_client = None, auth_log = [], submitted = []\<rparr>"

definition two_rows :: "unit query_outcome" where
  "two_rows =
     \<lparr>total_rows = 2, schema = [(py ''id'', py ''INTEGER''), (py ''name'', py ''STRING'')],
      rows = [(), ()], num_dml_affected_rows = None\<rparr>"

definition no_rows_changed :: "unit query_outcome" where
  "no_rows_changed = \<lparr>total_rows = 0, schema = [], rows = [], num_dml_affected_rows = Some 0\<rparr>"

definition three_rows_changed :: "unit query_outcome" where
  "three_rows_changed =
     \<lparr>total_rows = 0, schema = [], rows = [], num_dml_affected_rows = Some 3\<rparr>"

text \<open>
  Surroundings with ambient default credentials only, where every attempt constructs a
  new client (the attempt number is its identity) and every statement gives \<open>outcome\<close>.
\<close>

definition ambient :: "(fault + unit query_outcome) \<Rightarrow> unit bq_world" where
  "ambient outcome =
     \<lparr>path_exists = False, from_service_account_file = Inl (py ''no file''),
      env_credentials = False, new_client = (\<lambda>how n. Inr n),
      run_query = (\<lambda>c query. outcome), json_dumps = (\<lambda>rows. py ''[{}, {}]'')\<rparr>"

text \<open>The same, with a service account file that exists and cannot be loaded.\<close>

definition broken_key_file :: "unit bq_world" where
  "broken_key_file =
     (ambient (Inr two_rows))
       \<lparr>path_exists := True,
        from_service_account_file := Inl (py ''Service account info was not in the expected format'')\<rparr>"

text \<open>No credentials at all.\<close>

definition no_credentials :: "unit bq_world" where
  "no_credentials =
     (ambient (Inr two_rows))
       \<lparr>new_client := (\<lambda>how n. Inl (py ''Your default credentials were not found''))\<rparr>"


section \<open>Properties of the Reddit adapter\<close>

lemma py_eq_iff: "py a = py b \<longleftrightarrow> a = b"
  unfolding py_def by (simp add: inj_on_def)

lemma and_then_Inl: "and_then (Inl e, l) f = (Inl e, l)"
  by (simp add: and_then_def)

lemma and_then_Inr: "and_then (Inr x, l) f = (fst (f x), l @ snd (f x))"
  by (simp add: and_then_def split: prod.splits)

lemma and_then_issue:
  "and_then (issue c a) f =
     (case a of Inl e \<Rightarrow> (Inl e, [c]) | Inr x \<Rightarrow> (fst (f x), c # snd (f x)))"
  by (simp add: issue_def and_then_def split: sum.splits prod.splits)

lemma try_except_returns:
  "fst (try_except body (\<lambda>e. returns (h e))) =
     Inr (case fst body of Inl e \<Rightarrow> h e | Inr x \<Rightarrow> x)"
  "snd (try_except body (\<lambda>e. returns (h e))) = snd body"
  by (simp_all add: try_except_def returns_def split: prod.splits sum.splits)

lemma returns_proj: "fst (returns x) = Inr x" "snd (returns x) = []"
  by (simp_all add: returns_def)



lemma get_post_details_ok:
  assumes "praw_reddit w = Inr u" and "praw_submission w post_id = Inr s"
  shows "fst (get_post_details w post_id False n) = Inr (JObj (post_details s))"
    and "praw_replace_more w post_id = Inr u' \<Longrightarrow>
         fst (get_post_details w post_id True n) =
           Inr (JObj (post_details s @
                 [(py ''comments'',
                   JArr (collect_comments
                     (slice_to n (replace_more_0 (praw_comments w post_id)))))]))"
  using assms
  by (simp_all add: get_post_details_def get_post_details_body_def try_except_returns
      get_reddit_client_def and_then_issue returns_proj)




text \<open>
  Claim C5, as the code has it. With a \<open>sort_type\<close> outside hot, new, top and rising,
  \<open>get_subreddit_posts\<close> returns a dict with the single key \<^verbatim>\<open>error\<close> (the invalid
  sort message when the client and the subreddit handle were obtained), and the only calls
  it issues are the construction of the client and the request of the subreddit handle,
  both made before \<open>sort_type\<close> is looked at: no listing is requested.
\<close>

theorem invalid_sort_type_error:
  fixes w :: "'f reddit_world"
  assumes "sort_type \<notin> set valid_sort_types"
  shows "(\<exists>msg. fst (get_subreddit_posts w name sort_type limit time_filter)
                  = Inr (JObj [(py ''error'', JStr msg)]))
         \<and> (praw_reddit w = Inr u \<and> praw_subreddit w name = Inr u' \<longrightarrow>
              fst (get_subreddit_posts w name sort_type limit time_filter)
                = Inr invalid_sort_doc)
         \<and> (\<forall>c \<in> set (snd (get_subreddit_posts w name sort_type limit time_filter)).
               c = NewClient \<or> c = SubredditHandle name)"
  using assms
  by (simp add: get_subreddit_posts_def get_subreddit_posts_body_def try_except_returns
      get_reddit_client_def and_then_issue returns_proj valid_sort_types_def
      error_doc_def invalid_sort_doc_def
      split: sum.splits)

text \<open>The theorem on the sort type \<^verbatim>\<open>best\<close>.\<close>

theorem invalid_sort_type_error_witness:
  "py ''best'' \<notin> set valid_sort_types
   \<and> fst (get_subreddit_posts (demo_world []) (py ''python'') (py ''best'') 10 (py ''day''))
       = Inr invalid_sort_doc
   \<and> list_all (\<lambda>c. c = NewClient \<or> c = SubredditHandle (py ''python''))
        (snd (get_subreddit_posts (demo_world []) (py ''python'') (py ''best'') 10
               (py ''day'')))"
proof -
  have h: "py ''best'' \<notin> set valid_sort_types"
    by (simp add: valid_sort_types_def py_eq_iff)
  have w: "praw_reddit (demo_world []) = Inr ()"
    "praw_subreddit (demo_world []) (py ''python'') = Inr ()"
    by (simp_all add: demo_world_def)
  show ?thesis
    using h w invalid_sort_type_error [OF h, of "demo_world []" "py ''python''" 10 "py ''day''" "()" "()"]
    by (simp add: list_all_iff)
qed

text \<open>
  Claim C5 as stated fails: with the sort type \<^verbatim>\<open>best\<close> the call log is not empty, the
  client was constructed and asked for the subreddit.
\<close>

theorem invalid_sort_type_counterexample:
  "py ''best'' \<notin> set valid_sort_types
   \<and> snd (get_subreddit_posts (demo_world []) (py ''python'') (py ''best'') 10 (py ''day''))
       = [NewClient, SubredditHandle (py ''python'')]"
  by (simp add: get_subreddit_posts_def get_subreddit_posts_body_def try_except_returns
      get_reddit_client_def and_then_issue returns_proj valid_sort_types_def py_eq_iff
      demo_world_def)


lemma collect_comments_length: "length (collect_comments xs) \<le> length xs"
  by (induction xs rule: collect_comments.induct) simp_all

lemma slice_to_length: "0 \<le> n \<Longrightarrow> int (length (slice_to n xs)) \<le> n"
  by (simp add: slice_to_def)

lemma collect_comments_set:
  "set (collect_comments xs) = comment_info ` {c. Comment c \<in> set xs}"
  by (induction xs rule: collect_comments.induct) auto

lemma slice_to_set: "set (slice_to n xs) \<subseteq> set xs"
  by (auto simp: slice_to_def dest: in_set_takeD)

text \<open>
  Claim C9, as the code has it. On a run without a fault, \<open>get_post_details\<close> with
  \<open>include_comments\<close> returns the post's dict with one more key \<^verbatim>\<open>comments\<close>: the
  comment records of \<^verbatim>\<open>comments[:comment_limit]\<close>, sliced after the \<^verbatim>\<open>MoreComments\<close>
  placeholders were removed. Each is the record of a comment of the forest; there are at
  most \<open>comment_limit\<close> of them when \<open>comment_limit\<close> is not negative, and a negative
  \<open>comment_limit\<close> drops that many comments from the end instead. Without
  \<open>include_comments\<close> the dict has no key \<^verbatim>\<open>comments\<close>.
\<close>

theorem comments_of_post_details:
  fixes w :: "'f reddit_world"
  assumes "praw_reddit w = Inr u" and "praw_submission w post_id = Inr s"
  shows "(praw_replace_more w post_id = Inr u' \<longrightarrow>
           (\<exists>comments.
              fst (get_post_details w post_id True comment_limit)
                = Inr (JObj (post_details s @ [(py ''comments'', JArr comments)]))
              \<and> field (JObj (post_details s @ [(py ''comments'', JArr comments)]))
                    (py ''comments'') = Some (JArr comments)
              \<and> comments = collect_comments
                    (slice_to comment_limit (replace_more_0 (praw_comments w post_id)))
              \<and> set comments \<subseteq> comment_info ` {c. Comment c \<in> set (praw_comments w post_id)}
              \<and> (0 \<le> comment_limit \<longrightarrow> int (length comments) \<le> comment_limit)
              \<and> (comment_limit < 0 \<longrightarrow>
                    length comments
                      \<le> length (replace_more_0 (praw_comments w post_id))
                          - nat (- comment_limit))))
       \<and> (\<exists>doc. fst (get_post_details w post_id False comment_limit) = Inr doc
              \<and> \<not> has_key doc (py ''comments''))"
proof -
  let ?forest = "replace_more_0 (praw_comments w post_id)"
  let ?cs = "collect_comments (slice_to comment_limit ?forest)"
  have len: "length ?cs \<le> length (slice_to comment_limit ?forest)"
    by (rule collect_comments_length)
  have bound: "0 \<le> comment_limit \<longrightarrow> int (length ?cs) \<le> comment_limit"
    using len slice_to_length [of comment_limit ?forest] by auto
  have neg: "comment_limit < 0 \<longrightarrow> length ?cs \<le> length ?forest - nat (- comment_limit)"
    using len by (auto simp: slice_to_def)
  have sub: "set ?cs \<subseteq> comment_info ` {c. Comment c \<in> set (praw_comments w post_id)}"
    using slice_to_set [of comment_limit ?forest]
    by (auto simp: collect_comments_set replace_more_0_def)
  have key: "field (JObj (post_details s @ [(py ''comments'', JArr ?cs)])) (py ''comments'')
      = Some (JArr ?cs)"
    by (simp add: map_add_def post_details_def py_eq_iff)
  have no: "\<not> has_key (JObj (post_details s) :: 'f json) (py ''comments'')"
    by (simp add: post_details_def py_eq_iff)
  show ?thesis
    using assms get_post_details_ok [OF assms] bound neg sub key no by auto
qed


text \<open>The theorem on the sample post, with the limits 1 and -1.\<close>

theorem comments_of_post_details_witness:
  "praw_reddit (demo_world []) = Inr ()
   \<and> praw_submission (demo_world []) (py ''1abc9'') = Inr (demo_submission [])
   \<and> praw_replace_more (demo_world []) (py ''1abc9'') = Inr ()
   \<and> fst (get_post_details (demo_world []) (py ''1abc9'') True 1)
       = Inr (JObj (post_details (demo_submission [])
               @ [(py ''comments'', JArr [comment_info (demo_comment (py ''first''))])]))
   \<and> (0::int) \<le> 1
   \<and> int (length [comment_info (demo_comment (py ''first'')) :: unit json]) \<le> 1
   \<and> (-1::int) < 0
   \<and> fst (get_post_details (demo_world []) (py ''1abc9'') True (-1))
       = Inr (JObj (post_details (demo_submission [])
               @ [(py ''comments'', JArr [comment_info (demo_comment (py ''first''))])]))"
proof -
  have w: "praw_reddit (demo_world []) = Inr ()"
    "praw_submission (demo_world []) (py ''1abc9'') = Inr (demo_submission [])"
    "praw_replace_more (demo_world []) (py ''1abc9'') = Inr ()"
    "praw_comments (demo_world []) (py ''1abc9'')
       = [Comment (demo_comment (py ''first'')), MoreComments, Comment (demo_comment [])]"
    by (simp_all add: demo_world_def)
  show ?thesis
    using comments_of_post_details [OF w(1) w(2), of "()" 1]
      comments_of_post_details [OF w(1) w(2), of "()" "-1"]
    by (simp add: w replace_more_0_def slice_to_def)
qed

text \<open>
  Claim C9 as stated fails for a negative limit: with two comments and
  \<open>comment_limit = -1\<close> the list holds one record, which is more than \<open>-1\<close>.
\<close>

theorem comment_limit_counterexample:
  "fst (get_post_details (demo_world []) (py ''1abc9'') True (-1))
       = Inr (JObj (post_details (demo_submission [])
               @ [(py ''comments'', JArr [comment_info (demo_comment (py ''first''))])]))
   \<and> \<not> int (length [comment_info (demo_comment (py ''first'')) :: unit json]) \<le> -1"
proof -
  have w: "praw_reddit (demo_world []) = Inr ()"
    "praw_submission (demo_world []) (py ''1abc9'') = Inr (demo_submission [])"
    "praw_replace_more (demo_world []) (py ''1abc9'') = Inr ()"
    "praw_comments (demo_world []) (py ''1abc9'')
       = [Comment (demo_comment (py ''first'')), MoreComments, Comment (demo_comment [])]"
    by (simp_all add: demo_world_def)
  show ?thesis
    using get_post_details_ok(2) [OF w(1) w(2) w(3), of "-1"]
    by (simp add: w replace_more_0_def slice_to_def)
qed

text \<open>
  Claim C10: in every output of \<open>get_subreddit_posts\<close> and of \<open>search_reddit\<close> that
  is not an error dict, \<^verbatim>\<open>count\<close> is the number of records under \<^verbatim>\<open>posts\<close>
  (respectively \<^verbatim>\<open>results\<close>).
\<close>

theorem count_matches_records:
  fixes w :: "'f reddit_world"
  shows "(fst (get_subreddit_posts w name sort_type limit time_filter) = Inr doc
          \<and> \<not> has_key doc (py ''error'') \<longrightarrow>
            (\<exists>posts. field doc (py ''posts'') = Some (JArr posts)
                \<and> field doc (py ''count'') = Some (JInt (int (length posts)))))
       \<and> (fst (search_reddit w query sort_by time_filter limit) = Inr doc'
          \<and> \<not> has_key doc' (py ''error'') \<longrightarrow>
            (\<exists>results. field doc' (py ''results'') = Some (JArr results)
                \<and> field doc' (py ''count'') = Some (JInt (int (length results)))))"
proof -
  have posts: "\<exists>ps. field (posts_doc name sort_type time_filter posts :: 'f json) (py ''posts'')
                       = Some (JArr ps)
      \<and> field (posts_doc name sort_type time_filter posts :: 'f json) (py ''count'')
          = Some (JInt (int (length ps)))" for posts
    by (simp add: posts_doc_def py_eq_iff)
  have results: "\<exists>rs. field (search_doc query sort_by time_filter found :: 'f json) (py ''results'')
                       = Some (JArr rs)
      \<and> field (search_doc query sort_by time_filter found :: 'f json) (py ''count'')
          = Some (JInt (int (length rs)))" for found
    by (simp add: search_doc_def py_eq_iff)
  have err: "has_key (error_doc p e :: 'f json) (py ''error'')" for p e
    by (simp add: error_doc_def)
  have inv: "has_key (invalid_sort_doc :: 'f json) (py ''error'')"
    by (simp add: invalid_sort_doc_def)
  have a: "fst (get_subreddit_posts w name sort_type limit time_filter) = Inr doc
          \<and> \<not> has_key doc (py ''error'') \<longrightarrow>
            (\<exists>posts. field doc (py ''posts'') = Some (JArr posts)
                \<and> field doc (py ''count'') = Some (JInt (int (length posts))))"
    using posts err inv
    by (auto simp: get_subreddit_posts_def get_subreddit_posts_body_def try_except_returns
        get_reddit_client_def and_then_issue returns_proj
        split: sum.splits if_splits)
  have b: "fst (search_reddit w query sort_by time_filter limit) = Inr doc'
          \<and> \<not> has_key doc' (py ''error'') \<longrightarrow>
            (\<exists>results. field doc' (py ''results'') = Some (JArr results)
                \<and> field doc' (py ''count'') = Some (JInt (int (length results))))"
    using results err
    by (auto simp: search_reddit_def search_reddit_body_def try_except_returns
        get_reddit_client_def and_then_issue returns_proj
        split: sum.splits if_splits)
  show ?thesis using a b by blast
qed


text \<open>The theorem on the sample listing (two posts) and the sample search (one result).\<close>

theorem count_matches_records_witness:
  "fst (get_subreddit_posts (demo_world []) (py ''python'') (py ''hot'') 10 (py ''all''))
     = Inr (posts_doc (py ''python'') (py ''hot'') (py ''all'')
              [demo_submission [], demo_submission (py ''second'')])
   \<and> \<not> has_key (posts_doc (py ''python'') (py ''hot'') (py ''all'')
              [demo_submission [], demo_submission (py ''second'')]) (py ''error'')
   \<and> field (posts_doc (py ''python'') (py ''hot'') (py ''all'')
              [demo_submission [], demo_submission (py ''second'')]) (py ''count'')
       = Some (JInt 2)
   \<and> fst (search_reddit (demo_world []) (py ''tea'') (py ''relevance'') (py ''all'') 10)
     = Inr (search_doc (py ''tea'') (py ''relevance'') (py ''all'') [demo_submission []])
   \<and> \<not> has_key (search_doc (py ''tea'') (py ''relevance'') (py ''all'') [demo_submission []])
         (py ''error'')
   \<and> field (search_doc (py ''tea'') (py ''relevance'') (py ''all'') [demo_submission []])
         (py ''count'') = Some (JInt 1)"
proof -
  let ?d = "posts_doc (py ''python'') (py ''hot'') (py ''all'')
              [demo_submission [], demo_submission (py ''second'')]"
  let ?r = "search_doc (py ''tea'') (py ''relevance'') (py ''all'') [demo_submission []]"
  have run: "fst (get_subreddit_posts (demo_world []) (py ''python'') (py ''hot'') 10 (py ''all''))
     = Inr ?d"
    by (simp add: get_subreddit_posts_def get_subreddit_posts_body_def try_except_returns
        get_reddit_client_def and_then_issue returns_proj demo_world_def)
  have run': "fst (search_reddit (demo_world []) (py ''tea'') (py ''relevance'') (py ''all'') 10)
     = Inr ?r"
    by (simp add: search_reddit_def search_reddit_body_def try_except_returns
        get_reddit_client_def and_then_issue returns_proj demo_world_def)
  have k: "\<not> has_key ?d (py ''error'')" "\<not> has_key ?r (py ''error'')"
    by (simp_all add: posts_doc_def search_doc_def py_eq_iff)
  have f: "field ?d (py ''posts'') = Some (JArr (map post_info
              [demo_submission [], demo_submission (py ''second'')]))"
    "field ?r (py ''results'') = Some (JArr (map result_info [demo_submission []]))"
    by (simp_all add: posts_doc_def search_doc_def py_eq_iff)
  show ?thesis
    using run run' k f
      count_matches_records [of "demo_world []" "py ''python''" "py ''hot''" 10 "py ''all''" ?d
        "py ''tea''" "py ''relevance''" ?r]
    by auto
qed





section \<open>Properties of the BigQuery adapter\<close>

lemma get_bigquery_client_cached:
  "bq_client st = Some c \<Longrightarrow> get_bigquery_client w st = (Inr c, st)"
  by (simp add: get_bigquery_client_def)

lemma construct_result:
  "construct w how st = (Inr c, st') \<Longrightarrow>
     st' = st\<lparr>auth_log := auth_log st @ [how], bq_client := Some c\<rparr>"
  by (auto simp: construct_def Let_def split: sum.splits)

lemma get_bigquery_client_first:
  assumes "get_bigquery_client w st = (Inr c, st')" and "bq_client st = None"
  shows "\<exists>how. st' = st\<lparr>auth_log := auth_log st @ [how], bq_client := Some c\<rparr>"
  using assms
  by (auto simp: get_bigquery_client_def split: if_splits sum.splits prod.splits
      dest: construct_result)

lemma get_bigquery_client_stores:
  assumes "get_bigquery_client w st = (Inr c, st')"
  shows "bq_client st' = Some c"
proof (cases "bq_client st")
  case None
  with assms get_bigquery_client_first [of w st c st'] show ?thesis by auto
next
  case (Some d)
  with assms show ?thesis by (simp add: get_bigquery_client_def)
qed

lemma get_bigquery_client_submitted:
  "submitted (snd (get_bigquery_client w st)) = submitted st"
  by (simp add: get_bigquery_client_def construct_def Let_def
      split: option.splits sum.splits prod.splits)

lemma get_bigquery_client_keeps:
  "bq_client st = Some c \<Longrightarrow> bq_client (snd (get_bigquery_client w st)) = Some c"
  by (simp add: get_bigquery_client_cached)

lemma query_bigquery_keeps:
  "bq_client st = Some c \<Longrightarrow> bq_client (snd (query_bigquery U w st q)) = Some c"
  by (simp add: query_bigquery_def get_bigquery_client_cached Let_def split: sum.splits)

text \<open>
  Claim C6: once \<open>get_bigquery_client\<close> has returned a client \<open>c\<close>, the next call
  returns the same \<open>c\<close> whatever the surroundings then are, and leaves the state as it
  is: no authentication strategy is invoked again. Starting from an empty cache the first
  call invoked exactly one strategy, so after both calls exactly one invocation is on
  record. A cache that holds \<open>c\<close> is never written again, neither by
  \<open>get_bigquery_client\<close> nor by \<open>query_bigquery\<close>.
\<close>

theorem client_is_memoized:
  fixes w w' :: "'r bq_world"
  shows "(get_bigquery_client w st = (Inr c, st') \<longrightarrow>
            get_bigquery_client w' st' = (Inr c, st')
            \<and> (bq_client st = None \<longrightarrow>
                 (\<exists>how. auth_log st' = auth_log st @ [how])
                 \<and> length (auth_log (snd (get_bigquery_client w' st')))
                     = length (auth_log st) + 1))
       \<and> (bq_client st = Some c \<longrightarrow>
            get_bigquery_client w st = (Inr c, st)
            \<and> bq_client (snd (query_bigquery U w st q)) = Some c)"
proof (intro conjI impI)
  assume a: "get_bigquery_client w st = (Inr c, st')"
  show again: "get_bigquery_client w' st' = (Inr c, st')"
    using get_bigquery_client_stores [OF a] by (rule get_bigquery_client_cached)
  assume n: "bq_client st = None"
  from get_bigquery_client_first [OF a n]
  show log: "\<exists>how. auth_log st' = auth_log st @ [how]" by auto
  from log again
  show "length (auth_log (snd (get_bigquery_client w' st'))) = length (auth_log st) + 1"
    by auto
next
  assume "bq_client st = Some c"
  then show "get_bigquery_client w st = (Inr c, st)"
    and "bq_client (snd (query_bigquery U w st q)) = Some c"
    by (simp_all add: get_bigquery_client_cached query_bigquery_keeps)
qed

lemma ambient_first: "get_bigquery_client (ambient x) fresh
   = (Inr 0, \<lparr>bq_client = Some 0, auth_log = [ApplicationDefault], submitted = []\<rparr>)"
  by (simp add: get_bigquery_client_def construct_def ambient_def fresh_def)

text \<open>The theorem on ambient credentials, from the empty cache and from the filled one.\<close>

theorem client_is_memoized_witness:
  "get_bigquery_client (ambient (Inr two_rows)) fresh
     = (Inr 0, \<lparr>bq_client = Some 0, auth_log = [ApplicationDefault], submitted = []\<rparr>)
   \<and> bq_client fresh = None
   \<and> get_bigquery_client (ambient (Inr no_rows_changed))
        \<lparr>bq_client = Some 0, auth_log = [ApplicationDefault], submitted = []\<rparr>
     = (Inr 0, \<lparr>bq_client = Some 0, auth_log = [ApplicationDefault], submitted = []\<rparr>)
   \<and> length (auth_log (snd (get_bigquery_client (ambient (Inr no_rows_changed))
        \<lparr>bq_client = Some 0, auth_log = [ApplicationDefault], submitted = []\<rparr>))) = 1
   \<and> bq_client \<lparr>bq_client = Some 0, auth_log = [ApplicationDefault], submitted = []\<rparr> = Some 0
   \<and> bq_client (snd (query_bigquery ascii_only (ambient (Inr two_rows))
        \<lparr>bq_client = Some 0, auth_log = [ApplicationDefault], submitted = []\<rparr>
        (py ''SELECT 1''))) = Some 0"
proof -
  let ?st' = "\<lparr>bq_client = Some 0, auth_log = [ApplicationDefault], submitted = []\<rparr>"
  have f: "bq_client fresh = None" "auth_log fresh = []" by (simp_all add: fresh_def)
  have s: "bq_client ?st' = Some 0" by simp
  show ?thesis
    using ambient_first [of "Inr two_rows"] f s
      client_is_memoized [of "ambient (Inr two_rows)" fresh 0 ?st'
        "ambient (Inr no_rows_changed)" ascii_only "py ''SELECT 1''"]
      client_is_memoized [of "ambient (Inr two_rows)" ?st' 0 ?st'
        "ambient (Inr no_rows_changed)" ascii_only "py ''SELECT 1''"]
    by simp
qed

lemma query_bigquery_cases:
  "fst (query_bigquery U w st q) =
     (case fst (get_bigquery_client w st) of
        Inl e \<Rightarrow> Inl e
      | Inr c \<Rightarrow>
          (case execute U w c (rewrite_query U q) of
             Inl e \<Rightarrow> Inr (py ''Query failed: '' @ e)
           | Inr response \<Rightarrow> Inr response))"
  by (simp add: query_bigquery_def Let_def split: prod.splits sum.splits)

text \<open>
  Claim C7, as the code has it. Once the client is there, \<open>query_bigquery\<close> returns a
  string, and a fault \<open>e\<close> of the execution comes back as \<^verbatim>\<open>Query failed: \<close> followed
  by \<open>e\<close>. The faults that reach the caller are exactly those of
  \<open>get_bigquery_client\<close>, which is called outside the \<^verbatim>\<open>try\<close> block: the generic
  \<open>no_authentication\<close> when neither the file nor the variable is there and the ambient
  credentials fail, but also the fault of loading the credential file or of constructing
  the client under the first strategy that applies, without the later strategies being
  tried.
\<close>

theorem execution_faults_are_reported:
  fixes w :: "'r bq_world"
  shows "(fst (get_bigquery_client w st) = Inr c \<longrightarrow>
            (\<exists>text. fst (query_bigquery U w st q) = Inr text)
            \<and> (run_query w c (rewrite_query U q) = Inl e \<longrightarrow>
                 fst (query_bigquery U w st q) = Inr (py ''Query failed: '' @ e)))
       \<and> (fst (get_bigquery_client w st) = Inl e \<longrightarrow> fst (query_bigquery U w st q) = Inl e)
       \<and> (bq_client st = None \<and> \<not> path_exists w \<and> \<not> env_credentials w
            \<and> new_client w ApplicationDefault (length (auth_log st)) = Inl e \<longrightarrow>
              fst (get_bigquery_client w st) = Inl no_authentication)
       \<and> (bq_client st = None \<and> path_exists w \<and> from_service_account_file w = Inl e \<longrightarrow>
              fst (get_bigquery_client w st) = Inl e)
       \<and> (bq_client st = None \<and> path_exists w \<and> from_service_account_file w = Inr u
            \<and> new_client w ServiceAccountFile (length (auth_log st)) = Inl e \<longrightarrow>
              fst (get_bigquery_client w st) = Inl e)
       \<and> (bq_client st = None \<and> \<not> path_exists w \<and> env_credentials w
            \<and> new_client w EnvironmentVariable (length (auth_log st)) = Inl e \<longrightarrow>
              fst (get_bigquery_client w st) = Inl e)"
  by (auto simp: query_bigquery_cases execute_def get_bigquery_client_def construct_def Let_def
      split: sum.splits)

text \<open>
  The theorem on a statement with a syntax error, on surroundings without any credentials
  and on a credential file that cannot be loaded.
\<close>

theorem execution_faults_are_reported_witness:
  "fst (get_bigquery_client (ambient (Inl (py ''Syntax error''))) fresh) = Inr 0
   \<and> run_query (ambient (Inl (py ''Syntax error''))) 0
        (rewrite_query ascii_only (py ''SELEC 1'')) = Inl (py ''Syntax error'')
   \<and> fst (query_bigquery ascii_only (ambient (Inl (py ''Syntax error''))) fresh (py ''SELEC 1''))
       = Inr (py ''Query failed: Syntax error'')
   \<and> bq_client fresh = None \<and> \<not> path_exists no_credentials \<and> \<not> env_credentials no_credentials
   \<and> new_client no_credentials ApplicationDefault (length (auth_log fresh))
       = Inl (py ''Your default credentials were not found'')
   \<and> fst (get_bigquery_client no_credentials fresh) = Inl no_authentication
   \<and> fst (query_bigquery ascii_only no_credentials fresh (py ''SELEC 1'')) = Inl no_authentication
   \<and> path_exists broken_key_file
   \<and> from_service_account_file broken_key_file
       = Inl (py ''Service account info was not in the expected format'')
   \<and> fst (get_bigquery_client broken_key_file fresh)
       = Inl (py ''Service account info was not in the expected format'')"
proof -
  have a: "fst (get_bigquery_client (ambient (Inl (py ''Syntax error''))) fresh) = Inr 0"
    by (simp add: ambient_first)
  have b: "run_query (ambient (Inl (py ''Syntax error''))) 0 x = Inl (py ''Syntax error'')" for x
    by (simp add: ambient_def)
  have c: "bq_client fresh = None" "\<not> path_exists no_credentials"
    "\<not> env_credentials no_credentials"
    "new_client no_credentials ApplicationDefault (length (auth_log fresh))
       = Inl (py ''Your default credentials were not found'')"
    "path_exists broken_key_file"
    "from_service_account_file broken_key_file
       = Inl (py ''Service account info was not in the expected format'')"
    by (simp_all add: fresh_def no_credentials_def broken_key_file_def ambient_def)
  have p: "py ''Query failed: '' @ py ''Syntax error'' = py ''Query failed: Syntax error''"
    by (simp add: py_def)
  show ?thesis
    using a b c
      execution_faults_are_reported [of "ambient (Inl (py ''Syntax error''))" fresh 0 ascii_only
        "py ''SELEC 1''" "py ''Syntax error''" "()"]
      execution_faults_are_reported [of no_credentials fresh 0 ascii_only
        "py ''SELEC 1''" "py ''Your default credentials were not found''" "()"]
      execution_faults_are_reported [of no_credentials fresh 0 ascii_only
        "py ''SELEC 1''" no_authentication "()"]
      execution_faults_are_reported [of broken_key_file fresh 0 ascii_only
        "py ''SELEC 1''" "py ''Service account info was not in the expected format''" "()"]
    by (simp add: p)
qed

text \<open>
  Claim C7 as stated fails: with a credential file that exists and cannot be loaded,
  \<open>query_bigquery\<close> raises the loader's fault although the ambient default credentials
  would have given a client.
\<close>

theorem hard_fault_counterexample:
  "fst (query_bigquery ascii_only broken_key_file fresh (py ''SELECT 1''))
     = Inl (py ''Service account info was not in the expected format'')
   \<and> new_client broken_key_file ApplicationDefault (length (auth_log fresh)) = Inr 0"
  by (simp add: query_bigquery_cases get_bigquery_client_def broken_key_file_def ambient_def
      fresh_def)

lemma rewrite_skipped:
  "contains (PROJECT_ID @ py ''.'' @ DATASET_ID) q \<Longrightarrow> rewrite_query U q = q"
  by (simp add: rewrite_query_def)

lemma query_bigquery_submitted:
  "fst (get_bigquery_client w st) = Inr c \<Longrightarrow>
     submitted (snd (query_bigquery U w st q)) = submitted st @ [rewrite_query U q]"
  using get_bigquery_client_submitted [of w st]
  by (auto simp: query_bigquery_def Let_def split: prod.splits sum.splits)

text \<open>
  Claim C2: a statement that contains \<^verbatim>\<open>PROJECT_ID.DATASET_ID\<close> is left as it is by the
  rewrite step, and the statement submitted for execution is the statement passed in.
\<close>

theorem qualified_statement_is_not_rewritten:
  fixes w :: "'r bq_world"
  assumes "contains (PROJECT_ID @ py ''.'' @ DATASET_ID) query"
  shows "rewrite_query U query = query
       \<and> (fst (get_bigquery_client w st) = Inr c \<longrightarrow>
            submitted (snd (query_bigquery U w st query)) = submitted st @ [query])"
  using assms by (simp add: rewrite_skipped query_bigquery_submitted)

lemma startswith_append: "startswith (p @ b) p"
  by (simp add: startswith_def)

lemma contains_here: "startswith s p \<Longrightarrow> contains p s"
  by (cases s) (auto simp: startswith_def)

lemma contains_append: "contains p (a @ p @ b)"
  by (induction a) (auto simp: contains_here startswith_append)

lemma contains_first: "contains (p # ps) s \<Longrightarrow> p \<in> set s"
proof (induction s)
  case Nil
  then show ?case by simp
next
  case (Cons c cs)
  then show ?case by (auto simp: startswith_def)
qed

lemma digits_range: "c \<in> set (digits n) \<Longrightarrow> 48 \<le> c \<and> c \<le> 57"
proof (induction n arbitrary: c rule: digits.induct)
  case (1 n)
  show ?case
  proof (cases "n < 10")
    case True
    with "1.prems" show ?thesis by (simp add: digits.simps [of n])
  next
    case False
    with "1.prems" have "c \<in> set (digits (n div 10)) \<or> c = 48 + n mod 10"
      by (auto simp: digits.simps [of n])
    with "1.IH" False show ?thesis by auto
  qed
qed

lemma str_int_range: "c \<in> set (str_int i) \<Longrightarrow> c = 45 \<or> (48 \<le> c \<and> c \<le> 57)"
  by (auto simp: str_int_def dest: digits_range split: if_splits)

lemma write_response_no_schema: "\<not> contains (py ''Schema:'') (write_response results)"
proof
  assume "contains (py ''Schema:'') (write_response results)"
  then have "83 \<in> set (write_response results)"
    using contains_first [of 83 "py ''chema:''" "write_response results"] by (simp add: py_def)
  then show False
    by (auto simp: write_response_def py_def dest: str_int_range split: option.splits if_splits)
qed

lemma read_response_parts:
  "startswith (read_response w results)
     (py ''Query executed successfully. Found '' @ str_int (total_rows results) @ py '' rows.'')"
  "contains (py ''Schema:'' @ [10] @ concat (map schema_line (schema results)))
     (read_response w results)"
  "endswith (read_response w results) (json_dumps w (rows results))"
proof -
  show "startswith (read_response w results)
     (py ''Query executed successfully. Found '' @ str_int (total_rows results) @ py '' rows.'')"
    unfolding read_response_def
    using startswith_append [of "py ''Query executed successfully. Found ''
        @ str_int (total_rows results) @ py '' rows.''"]
    by (simp only: append_assoc)
  show "contains (py ''Schema:'' @ [10] @ concat (map schema_line (schema results)))
     (read_response w results)"
    unfolding read_response_def
    using contains_append [of "py ''Schema:'' @ [10] @ concat (map schema_line (schema results))"
        "py ''Query executed successfully. Found '' @ str_int (total_rows results)
           @ py '' rows.'' @ [10, 10]"
        "[10] @ py ''Results:'' @ [10] @ json_dumps w (rows results)"]
    by (simp only: append_assoc)
  have e: "endswith (a @ b) b" for a b :: pystr
    by simp
  show "endswith (read_response w results) (json_dumps w (rows results))"
    unfolding read_response_def
    using e [of "py ''Query executed successfully. Found '' @ str_int (total_rows results)
           @ py '' rows.'' @ [10, 10] @ py ''Schema:'' @ [10]
           @ concat (map schema_line (schema results)) @ [10] @ py ''Results:'' @ [10]"
        "json_dumps w (rows results)"]
    by (simp only: append_assoc)
qed

text \<open>The theorem on a statement with a fully qualified table.\<close>

theorem qualified_statement_is_not_rewritten_witness:
  "contains (PROJECT_ID @ py ''.'' @ DATASET_ID)
     (py ''SELECT * FROM `'' @ PROJECT_ID @ py ''.'' @ DATASET_ID @ py ''.orders`'')
   \<and> rewrite_query ascii_only
        (py ''SELECT * FROM `'' @ PROJECT_ID @ py ''.'' @ DATASET_ID @ py ''.orders`'')
       = py ''SELECT * FROM `'' @ PROJECT_ID @ py ''.'' @ DATASET_ID @ py ''.orders`''
   \<and> fst (get_bigquery_client (ambient (Inr two_rows)) fresh) = Inr 0
   \<and> submitted (snd (query_bigquery ascii_only (ambient (Inr two_rows)) fresh
        (py ''SELECT * FROM `'' @ PROJECT_ID @ py ''.'' @ DATASET_ID @ py ''.orders`'')))
       = [py ''SELECT * FROM `'' @ PROJECT_ID @ py ''.'' @ DATASET_ID @ py ''.orders`'']"
proof -
  let ?q = "py ''SELECT * FROM `'' @ PROJECT_ID @ py ''.'' @ DATASET_ID @ py ''.orders`''"
  have c: "contains (PROJECT_ID @ py ''.'' @ DATASET_ID) ?q"
    using contains_append [of "PROJECT_ID @ py ''.'' @ DATASET_ID" "py ''SELECT * FROM `''"
        "py ''.orders`''"]
    by (simp only: append_assoc)
  have g: "fst (get_bigquery_client (ambient (Inr two_rows)) fresh) = Inr 0"
    by (simp add: ambient_first)
  have s: "submitted fresh = []" by (simp add: fresh_def)
  show ?thesis
    using c g s
      qualified_statement_is_not_rewritten [OF c, of ascii_only "ambient (Inr two_rows)" fresh 0]
    by simp
qed

lemma dropWhile_keep: "s \<noteq> [] \<Longrightarrow> \<not> P (hd s) \<Longrightarrow> dropWhile P (ws @ s) = s" if "list_all P ws"
  using that by (induction ws) (auto simp: neq_Nil_conv)

lemma rstrip_keep:
  assumes "k \<noteq> []" and "\<not> P (last k)"
  shows "\<exists>x'. rev (dropWhile P (rev (k @ x))) = k @ x'"
proof (cases "\<forall>c \<in> set (rev x). P c")
  case True
  from assms have "dropWhile P (rev k) = rev k"
    by (cases "rev k") (auto simp: last_rev [symmetric] hd_rev)
  with True show ?thesis by (simp add: dropWhile_append)
next
  case False
  then show ?thesis by (auto simp: dropWhile_append)
qed

lemma py_upper_append: "py_upper U (a @ b) = py_upper U a @ py_upper U b"
  by (simp add: py_upper_def)

lemma py_upper_ascii:
  "list_all (\<lambda>c. c < 128) s \<Longrightarrow> py_upper U s = map ascii_upper s"
  by (induction s) (simp_all add: py_upper_def)

lemma ascii_upper_space: "is_space c \<Longrightarrow> ascii_upper c = c"
  by (auto simp: is_space_def ascii_upper_def)

lemma leading_keyword:
  assumes ws: "list_all (\<lambda>c. c < 128 \<and> is_space c) ws"
    and kw: "list_all (\<lambda>c. c < 128) kw"
    and k: "map ascii_upper kw = K" and K: "K \<noteq> []" "\<not> is_space (hd K)" "\<not> is_space (last K)"
  shows "startswith (strip (py_upper U (ws @ kw @ rest))) K"
proof -
  have 1: "py_upper U ws = ws"
    using ws by (induction ws) (simp_all add: py_upper_def ascii_upper_space)
  have 2: "py_upper U kw = K"
    using kw k by (simp add: py_upper_ascii)
  have 3: "list_all is_space ws" using ws by (induction ws) simp_all
  have "dropWhile is_space (ws @ K @ py_upper U rest) = K @ py_upper U rest"
    using dropWhile_keep [OF 3, of "K @ py_upper U rest"] K by simp
  then have "strip (py_upper U (ws @ kw @ rest)) = rev (dropWhile is_space (rev (K @ py_upper U rest)))"
    by (simp add: strip_def py_upper_append 1 2)
  with rstrip_keep [of K is_space "py_upper U rest"] K show ?thesis
    by (auto simp: startswith_def)
qed

text \<open>
  Claim C3, as the code has it. After a successful execution the response depends on
  whether the statement as submitted, upper-cased and stripped, starts with
  \<^verbatim>\<open>SELECT\<close> or \<^verbatim>\<open>WITH\<close> (so leading ASCII whitespace and the letter case do not
  matter). If it does, the response starts with the row count, lists the schema, one
  line per field with its name and type, and ends with the rows as \<^verbatim>\<open>json.dumps\<close>
  prints them. If it does not, the response is the acknowledgment, without any
  \<^verbatim>\<open>Schema:\<close>, followed by the number of affected rows when the job has one that is not
  zero; a count of zero is left out like a missing one.
\<close>

theorem response_by_leading_keyword:
  fixes w :: "'r bq_world"
  assumes "fst (get_bigquery_client w st) = Inr c"
    and "run_query w c (rewrite_query U query) = Inr results"
  shows "(is_read_statement U (rewrite_query U query) \<longrightarrow>
            fst (query_bigquery U w st query) = Inr (read_response w results))
       \<and> (\<not> is_read_statement U (rewrite_query U query) \<longrightarrow>
            fst (query_bigquery U w st query) = Inr (write_response results))
       \<and> startswith (read_response w results)
            (py ''Query executed successfully. Found '' @ str_int (total_rows results)
               @ py '' rows.'')
       \<and> contains (py ''Schema:'' @ [10] @ concat (map schema_line (schema results)))
            (read_response w results)
       \<and> endswith (read_response w results) (json_dumps w (rows results))
       \<and> \<not> contains (py ''Schema:'') (write_response results)
       \<and> (num_dml_affected_rows results = Some n \<and> n \<noteq> 0 \<longrightarrow>
            write_response results
              = py ''Query executed successfully. Affected '' @ str_int n @ py '' rows.'')
       \<and> (num_dml_affected_rows results = None \<or> num_dml_affected_rows results = Some 0 \<longrightarrow>
            write_response results = py ''Query executed successfully.'')
       \<and> (list_all (\<lambda>c. c < 128 \<and> is_space c) ws \<and> list_all (\<lambda>c. c < 128) kw
            \<and> (map ascii_upper kw = py ''SELECT'' \<or> map ascii_upper kw = py ''WITH'') \<longrightarrow>
            is_read_statement U (ws @ kw @ rest))"
proof -
  have a: "is_read_statement U (rewrite_query U query) \<longrightarrow>
            fst (query_bigquery U w st query) = Inr (read_response w results)"
    and b: "\<not> is_read_statement U (rewrite_query U query) \<longrightarrow>
            fst (query_bigquery U w st query) = Inr (write_response results)"
    using assms by (simp_all add: query_bigquery_cases execute_def)
  have d: "num_dml_affected_rows results = Some n \<and> n \<noteq> 0 \<longrightarrow>
            write_response results
              = py ''Query executed successfully. Affected '' @ str_int n @ py '' rows.''"
    and e: "num_dml_affected_rows results = None \<or> num_dml_affected_rows results = Some 0 \<longrightarrow>
            write_response results = py ''Query executed successfully.''"
    by (auto simp: write_response_def py_def)
  have f: "list_all (\<lambda>c. c < 128 \<and> is_space c) ws \<and> list_all (\<lambda>c. c < 128) kw
            \<and> (map ascii_upper kw = py ''SELECT'' \<or> map ascii_upper kw = py ''WITH'') \<longrightarrow>
            is_read_statement U (ws @ kw @ rest)"
  proof (intro impI, elim conjE disjE)
    assume h: "list_all (\<lambda>c. c < 128 \<and> is_space c) ws" "list_all (\<lambda>c. c < 128) kw"
    {
      assume "map ascii_upper kw = py ''SELECT''"
      from leading_keyword [OF h this, of U rest]
      show "is_read_statement U (ws @ kw @ rest)"
        by (simp add: is_read_statement_def py_def is_space_def)
    next
      assume "map ascii_upper kw = py ''WITH''"
      from leading_keyword [OF h this, of U rest]
      show "is_read_statement U (ws @ kw @ rest)"
        by (simp add: is_read_statement_def py_def is_space_def)
    }
  qed
  show ?thesis
    using a b d e f read_response_parts [where w = w and results = results]
      write_response_no_schema [where results = results]
    by blast
qed

lemmas rewrite_eval =
  rewrite_query_def startswith_def PROJECT_ID_def DATASET_ID_def py_def patterns_def
  match_at_def boundary_def word_char_def head_def is_word_def ascii_letter_def ascii_digit_def
  ic_eq_def greedy_def if_exists_def match_identifier_def ident_start_def ident_char_def
  folds_to_ascii_letter_def is_space_def replacement_def ascii_only_def

lemma rewrite_select_1: "rewrite_query ascii_only (py ''select 1'') = py ''select 1''"
  by (simp add: rewrite_eval)

lemma rewrite_update_t: "rewrite_query ascii_only (py ''UPDATE t SET a = 1'')
   = py ''UPDATE `[Insert your project ID here].[Insert your dataset ID here].t` SET a = 1''"
  by (simp add: rewrite_eval)

lemma rewrite_delete_from_t: "rewrite_query ascii_only (py ''DELETE FROM t WHERE FALSE'')
   = py ''DELETE FROM `[Insert your project ID here].[Insert your dataset ID here].t` WHERE FALSE''"
  by code_simp


lemma is_read_eval:
  "is_read_statement ascii_only (py ''select 1'')"
  "\<not> is_read_statement ascii_only
      (py ''UPDATE `[Insert your project ID here].[Insert your dataset ID here].t` SET a = 1'')"
  "\<not> is_read_statement ascii_only
      (py ''DELETE FROM `[Insert your project ID here].[Insert your dataset ID here].t` WHERE FALSE'')"
  by (simp_all add: is_read_statement_def py_upper_def strip_def startswith_def py_def
      ascii_upper_def is_space_def)

lemma str_int_3: "str_int 3 = py ''3''"
  by (simp add: str_int_def digits.simps [of 3] py_def)

text \<open>
  The theorem on a read statement, on an update of three rows and on an outcome with
  zero affected rows.
\<close>

theorem response_by_leading_keyword_witness:
  "fst (get_bigquery_client (ambient (Inr two_rows)) fresh) = Inr 0
   \<and> run_query (ambient (Inr two_rows)) 0 (rewrite_query ascii_only (py ''select 1''))
       = Inr two_rows
   \<and> is_read_statement ascii_only (rewrite_query ascii_only (py ''select 1''))
   \<and> fst (query_bigquery ascii_only (ambient (Inr two_rows)) fresh (py ''select 1''))
       = Inr (read_response (ambient (Inr two_rows)) two_rows)
   \<and> fst (get_bigquery_client (ambient (Inr three_rows_changed)) fresh) = Inr 0
   \<and> run_query (ambient (Inr three_rows_changed)) 0
        (rewrite_query ascii_only (py ''UPDATE t SET a = 1'')) = Inr three_rows_changed
   \<and> \<not> is_read_statement ascii_only (rewrite_query ascii_only (py ''UPDATE t SET a = 1''))
   \<and> num_dml_affected_rows three_rows_changed = Some 3 \<and> (3::int) \<noteq> 0
   \<and> fst (query_bigquery ascii_only (ambient (Inr three_rows_changed)) fresh
            (py ''UPDATE t SET a = 1''))
       = Inr (py ''Query executed successfully. Affected 3 rows.'')
   \<and> num_dml_affected_rows no_rows_changed = Some 0
   \<and> write_response no_rows_changed = py ''Query executed successfully.''
   \<and> list_all (\<lambda>c. c < 128 \<and> is_space c) (py ''  '') \<and> list_all (\<lambda>c. c < 128) (py ''Select'')
   \<and> map ascii_upper (py ''Select'') = py ''SELECT''
   \<and> is_read_statement ascii_only (py ''  '' @ py ''Select'' @ py ''ed'')"
proof -
  have g: "fst (get_bigquery_client (ambient x) fresh) = Inr 0" for x
    by (simp add: ambient_first)
  have r: "run_query (ambient x) 0 q = x" for x q
    by (simp add: ambient_def)
  have n: "num_dml_affected_rows three_rows_changed = Some 3"
    "num_dml_affected_rows no_rows_changed = Some 0"
    by (simp_all add: three_rows_changed_def no_rows_changed_def)
  have k: "list_all (\<lambda>c. c < 128 \<and> is_space c) (py ''  '')" "list_all (\<lambda>c. c < 128) (py ''Select'')"
    "map ascii_upper (py ''Select'') = py ''SELECT''"
    by (simp_all add: py_def is_space_def ascii_upper_def)
  have p: "py ''Query executed successfully. Affected '' @ py ''3'' @ py '' rows.''
      = py ''Query executed successfully. Affected 3 rows.''"
    by (simp add: py_def)
  show ?thesis
    using g r n k is_read_eval
      response_by_leading_keyword [where w = "ambient (Inr two_rows)" and st = fresh and c = 0
        and U = ascii_only and query = "py ''select 1''" and results = two_rows and n = 3
        and ws = "py ''  ''" and kw = "py ''Select''" and rest = "py ''ed''"]
      response_by_leading_keyword [where w = "ambient (Inr three_rows_changed)" and st = fresh
        and c = 0 and U = ascii_only and query = "py ''UPDATE t SET a = 1''"
        and results = three_rows_changed and n = 3
        and ws = "py ''  ''" and kw = "py ''Select''" and rest = "py ''ed''"]
      response_by_leading_keyword [where w = "ambient (Inr no_rows_changed)" and st = fresh
        and c = 0 and U = ascii_only and query = "py ''select 1''"
        and results = no_rows_changed and n = 3
        and ws = "py ''  ''" and kw = "py ''Select''" and rest = "py ''ed''"]
    by (simp add: rewrite_select_1 rewrite_update_t str_int_3 p)
qed

text \<open>
  Claim C3 as stated fails: a \<^verbatim>\<open>DELETE\<close> whose job reports zero affected rows is
  answered with the bare acknowledgment, the available count is not in the response.
\<close>

theorem zero_rows_counterexample:
  "fst (query_bigquery ascii_only (ambient (Inr no_rows_changed)) fresh
         (py ''DELETE FROM t WHERE FALSE''))
     = Inr (py ''Query executed successfully.'')
   \<and> num_dml_affected_rows no_rows_changed = Some 0"
proof -
  have r: "run_query (ambient x) 0 q = x" for x q
    by (simp add: ambient_def)
  show ?thesis
    by (simp add: query_bigquery_cases ambient_first execute_def rewrite_delete_from_t
        is_read_eval write_response_def r no_rows_changed_def)
qed

subsection \<open>The rewrite of table references\<close>









lemma match_literal_first:
  "match_literal (k # K) (c # cs) \<noteq> None \<Longrightarrow> ic_eq k c"
  by (auto split: if_splits)



lemma greedy_none: "greedy 1 0 = []"
  by (simp add: greedy_def)



















































end
